theory Spec2Isabelle
  imports Main
begin

section \<open>AuthService of Re-Peng-Blog-Service (src/modules/auth/auth.service.ts)\<close>

text \<open>
  The service is glue around three injected collaborators: a JwtService, a
  ConfigService and a RedisService. Every method is embedded as a function of the
  service object \<open>this\<close>, of the clock reading \<open>now\<close> (the value of \<^verbatim>\<open>Date.now()\<close>,
  milliseconds since the epoch) where a collaborator reads the clock, and of the cache
  state where the method goes through the RedisService. A rejected promise or a
  \<^verbatim>\<open>throw\<close> is the \<open>Inl\<close> branch of a sum.
\<close>

subsection \<open>Errors\<close>

text \<open>
  The codes of \<^verbatim>\<open>ApiResponseCodeEnum\<close> that the service uses. The enum is declared in
  \<^verbatim>\<open>@/helper/enums\<close>, which is not among the sources: only the member names are used.
\<close>

datatype ApiResponseCodeEnum =
    UNAUTHORIZED_ACCESS_TOKEN
  | UNAUTHORIZED_REFRESH_TOKEN
  | UNAUTHORIZED_NOTFOUND_SESSION
  | UNAUTHORIZED_CAPTCHA_EXPIRE
  | UNAUTHORIZED_CAPTCHA_ERROR
  | INTERNALSERVERERROR_REDIS

text \<open>
  What a method can throw: an error \<open>'e\<close> of a collaborator that nobody caught
  (\<open>Thrown\<close>), or one of the two HTTP exceptions the service builds. The field
  \<^verbatim>\<open>e\<close> of an HTTP exception is the caught error; \<^verbatim>\<open>verifyCaptcha\<close> builds its
  exceptions without it. The \<^verbatim>\<open>msg\<close> field is a fixed text per throw site and is
  left out.
\<close>

datatype 'e exception =
    Thrown 'e
  | UnauthorizedException "'e exception option" ApiResponseCodeEnum
  | InternalServerErrorException ApiResponseCodeEnum "'e exception"

subsection \<open>Data\<close>

text \<open>
  A JWT payload: the service signs \<^verbatim>\<open>{sub, userName}\<close> or \<^verbatim>\<open>{sub}\<close>; the claims
  \<^verbatim>\<open>iat\<close> and \<^verbatim>\<open>exp\<close> are added by the library. Ids are integer-valued numbers.
\<close>

record JwtPayload =
  sub :: int
  userName :: "string option"
  iat :: "int option"
  exp :: "int option"

text \<open>The options object passed to \<^verbatim>\<open>signAsync\<close> and \<^verbatim>\<open>verifyAsync\<close>.\<close>

record JwtOptions =
  secret :: "string option"
  expiresIn :: "int option"

text \<open>
  The four configuration values the service reads;
  \<^verbatim>\<open>configService.get<T>('NAME')\<close> is the selection of field \<open>NAME\<close>.
\<close>

record ConfigService =
  JWT_ACCESS_TOKEN_SECRET :: string
  JWT_REFRESH_TOKEN_SECRET :: string
  JWT_ACCESS_TOKEN_EXPIRES_IN :: int
  JWT_REFRESH_TOKEN_EXPIRES_IN :: int

text \<open>
  The session fields \<^verbatim>\<open>verifyCaptcha\<close> reads; both may be missing, and the session
  itself may be missing (the code reads it through \<^verbatim>\<open>session?.\<close>).
\<close>

record SessionInfo =
  captcha :: "string option"
  expirationTimestamp :: "int option"

text \<open>
  The argument of \<^verbatim>\<open>clearUserToken\<close>, destructured there into \<^verbatim>\<open>id\<close> and
  \<^verbatim>\<open>userName\<close> (the field names carry a prefix here: \<open>id\<close> and \<open>userName\<close> are
  taken).
\<close>

record UserLogoutDto =
  dto_id :: int
  dto_userName :: string

subsection \<open>The injected collaborators\<close>

text \<open>
  The JwtService, as the service uses it: a token type \<open>'t\<close> (an opaque string to
  the service), signing and verification, each of which may reject with an error
  \<open>'e\<close>. The last argument is the clock reading at the call.
\<close>

record ('t, 'e) JwtService =
  signAsync :: "JwtPayload \<Rightarrow> JwtOptions \<Rightarrow> int \<Rightarrow> 'e + 't"
  verifyAsync :: "'t \<Rightarrow> JwtOptions \<Rightarrow> int \<Rightarrow> 'e + JwtPayload"

text \<open>
  The RedisService, as the service uses it, over a cache state \<open>'st\<close>:
  \<^verbatim>\<open>setCache(key, value, ttl)\<close>, \<^verbatim>\<open>getCache(key)\<close>, \<^verbatim>\<open>getTTL(key)\<close> and
  \<^verbatim>\<open>clearCatch(key)\<close>; each may reject.
\<close>

record ('t, 'e, 'st) RedisService =
  setCache :: "string \<Rightarrow> 't \<Rightarrow> int \<Rightarrow> 'st \<Rightarrow> 'e + 'st"
  getCache :: "string \<Rightarrow> 'st \<Rightarrow> 'e + 't option"
  getTTL :: "string \<Rightarrow> 'st \<Rightarrow> 'e + int"
  clearCatch :: "string \<Rightarrow> 'st \<Rightarrow> 'e + int \<times> 'st"

text \<open>
  The service object. The \<^verbatim>\<open>userService\<close> is used only by pass-through lookups,
  which are not modelled.
\<close>

record ('t, 'e, 'st) AuthService =
  jwtService :: "('t, 'e) JwtService"
  configService :: ConfigService
  redis :: "('t, 'e, 'st) RedisService"

subsection \<open>Strings\<close>

text \<open>
  \<^verbatim>\<open>`${id}`\<close> for an id that is a safe integer (magnitude below \<open>2^53\<close>, where a
  number is exactly the integer it shows): the decimal digits, most significant first,
  after a minus sign when negative. Ids are modelled as \<open>int\<close>.
\<close>

definition digit_char :: "nat \<Rightarrow> char" where
  "digit_char d = ''0123456789'' ! d"

function decimal :: "nat \<Rightarrow> string" where
  "decimal n = (if n < 10 then [digit_char n] else decimal (n div 10) @ [digit_char (n mod 10)])"
  by pat_completeness auto
termination
  by (relation "measure (\<lambda>n. n)") auto

declare decimal.simps [simp del]

definition Number_toString :: "int \<Rightarrow> string" where
  "Number_toString i = (if i < 0 then CHR ''-'' # decimal (nat (- i)) else decimal (nat i))"

text \<open>
  A template literal \<^verbatim>\<open>`q0${s1}q1${s2}q2...`\<close>: the literal chunks interleaved with
  the substituted strings.
\<close>

fun template_literal :: "string list \<Rightarrow> string list \<Rightarrow> string" where
  "template_literal [] ss = []"
| "template_literal (q # qs) [] = q"
| "template_literal (q # qs) (s # ss) = q @ s @ template_literal qs ss"

text \<open>
  A string is the list of its UTF-8 bytes, so two strings are equal, and a string is
  empty, exactly when their byte lists are. The built-in \<^verbatim>\<open>toLocaleLowerCase\<close> follows
  the Unicode case mappings and the locale of the host; it is not written out here:
  \<^verbatim>\<open>verifyCaptcha\<close> takes it as an argument, and what is proved of it holds for every
  such function.

  \<open>toLocaleLowerCase_ascii\<close> is what the built-in does on ASCII text in a locale
  without case rules of its own for ASCII letters: \<open>A\<close> to \<open>Z\<close> go to \<open>a\<close> to \<open>z\<close>,
  every other byte stays. It is used in the examples only.
\<close>

definition lower_char :: "char \<Rightarrow> char" where
  "lower_char c =
     (case map_of (zip ''ABCDEFGHIJKLMNOPQRSTUVWXYZ'' ''abcdefghijklmnopqrstuvwxyz'') c of
        Some l \<Rightarrow> l
      | None \<Rightarrow> c)"

definition toLocaleLowerCase_ascii :: "string \<Rightarrow> string" where
  "toLocaleLowerCase_ascii s = map lower_char s"

subsection \<open>Tokens\<close>

text \<open>
  \<^verbatim>\<open>generateAccessToken\<close> signs without options, so the secret and the expiry are
  the defaults the JwtService was registered with. The template literal around the
  awaited token turns a string into itself.
\<close>

definition generateAccessToken ::
  "('t, 'e, 'st) AuthService \<Rightarrow> int \<Rightarrow> int \<Rightarrow> string \<Rightarrow> 'e exception + 't" where
  "generateAccessToken this now id' userName' =
     (case signAsync (jwtService this)
             \<lparr>sub = id', userName = Some userName', iat = None, exp = None\<rparr>
             \<lparr>secret = None, expiresIn = None\<rparr> now of
        Inl e \<Rightarrow> Inl (Thrown e)
      | Inr token \<Rightarrow> Inr token)"

definition verifyAccessToken ::
  "('t, 'e, 'st) AuthService \<Rightarrow> int \<Rightarrow> 't \<Rightarrow> 'e exception + JwtPayload" where
  "verifyAccessToken this now token =
     (case verifyAsync (jwtService this) token
             \<lparr>secret = Some (JWT_ACCESS_TOKEN_SECRET (configService this)), expiresIn = None\<rparr>
             now of
        Inr payload \<Rightarrow> Inr payload
      | Inl e \<Rightarrow> Inl (UnauthorizedException (Some (Thrown e)) UNAUTHORIZED_ACCESS_TOKEN))"

definition generateRefreshToken ::
  "('t, 'e, 'st) AuthService \<Rightarrow> int \<Rightarrow> int \<Rightarrow> 'e exception + 't" where
  "generateRefreshToken this now id' =
     (case signAsync (jwtService this)
             \<lparr>sub = id', userName = None, iat = None, exp = None\<rparr>
             \<lparr>secret = Some (JWT_REFRESH_TOKEN_SECRET (configService this)),
              expiresIn = Some (JWT_REFRESH_TOKEN_EXPIRES_IN (configService this))\<rparr> now of
        Inl e \<Rightarrow> Inl (Thrown e)
      | Inr token \<Rightarrow> Inr token)"

definition verifyRefresToken ::
  "('t, 'e, 'st) AuthService \<Rightarrow> int \<Rightarrow> 't \<Rightarrow> 'e exception + JwtPayload" where
  "verifyRefresToken this now token =
     (case verifyAsync (jwtService this) token
             \<lparr>secret = Some (JWT_REFRESH_TOKEN_SECRET (configService this)), expiresIn = None\<rparr>
             now of
        Inr payload \<Rightarrow> Inr payload
      | Inl e \<Rightarrow> Inl (UnauthorizedException (Some (Thrown e)) UNAUTHORIZED_REFRESH_TOKEN))"

subsection \<open>The token registry in the cache\<close>

definition setTokenToRedis ::
  "('t, 'e, 'st) AuthService \<Rightarrow> string \<Rightarrow> 't \<Rightarrow> 'st \<Rightarrow> 'e exception + 'st" where
  "setTokenToRedis this key token st =
     (case setCache (redis this) key token (JWT_ACCESS_TOKEN_EXPIRES_IN (configService this)) st of
        Inl e \<Rightarrow> Inl (Thrown e)
      | Inr st' \<Rightarrow> Inr st')"

definition redisTokenKeyStr :: "int \<Rightarrow> string \<Rightarrow> string" where
  "redisTokenKeyStr id' userName' =
     template_literal [''user_token:'', ''-'', ''''] [Number_toString id', userName']"

definition getRedisToken ::
  "('t, 'e, 'st) AuthService \<Rightarrow> int \<Rightarrow> string \<Rightarrow> 'st \<Rightarrow> 'e exception + 't option" where
  "getRedisToken this id' userName' st =
     (case getCache (redis this) (redisTokenKeyStr id' userName') st of
        Inl e \<Rightarrow> Inl (Thrown e)
      | Inr v \<Rightarrow> Inr v)"

definition getTokenTTL ::
  "('t, 'e, 'st) AuthService \<Rightarrow> string \<Rightarrow> 'st \<Rightarrow> 'e exception + int" where
  "getTokenTTL this key st =
     (case getTTL (redis this) key st of
        Inl e \<Rightarrow> Inl (Thrown e)
      | Inr v \<Rightarrow> Inr v)"

text \<open>
  \<^verbatim>\<open>refreshAccessToken\<close>: both awaits stand inside one \<^verbatim>\<open>try\<close>; whatever either
  throws is wrapped.
\<close>

definition refreshAccessToken ::
  "('t, 'e, 'st) AuthService \<Rightarrow> int \<Rightarrow> int \<Rightarrow> string \<Rightarrow> 'st \<Rightarrow> 'e exception + 't \<times> 'st" where
  "refreshAccessToken this now id' userName' st =
     (case generateAccessToken this now id' userName' of
        Inl e \<Rightarrow> Inl (InternalServerErrorException INTERNALSERVERERROR_REDIS e)
      | Inr token \<Rightarrow>
          (case setTokenToRedis this (redisTokenKeyStr id' userName') token st of
             Inl e \<Rightarrow> Inl (InternalServerErrorException INTERNALSERVERERROR_REDIS e)
           | Inr st' \<Rightarrow> Inr (token, st')))"

text \<open>
  \<^verbatim>\<open>clearUserToken\<close>: the await is not inside a \<^verbatim>\<open>try\<close>. On return the result
  carries the new cache state and the line written by \<^verbatim>\<open>console.log\<close>.
\<close>

definition clearUserToken ::
  "('t, 'e, 'st) AuthService \<Rightarrow> UserLogoutDto \<Rightarrow> 'st \<Rightarrow> 'e exception + 'st \<times> (string \<times> int) list" where
  "clearUserToken this data st =
     (let id' = dto_id data; userName' = dto_userName data;
          key = redisTokenKeyStr id' userName' in
      case clearCatch (redis this) key st of
        Inl e \<Rightarrow> Inl (Thrown e)
      | Inr (val, st') \<Rightarrow> Inr (st', [(''val ------'', val)]))"

subsection \<open>The CAPTCHA check\<close>

text \<open>
  \<^verbatim>\<open>verifyCaptcha\<close>. \<^verbatim>\<open>session?.captcha\<close> is \<open>Option.bind session captcha\<close>;
  \<^verbatim>\<open>!x\<close> holds of a missing value, of the empty string and of the number 0. The
  first argument is the built-in \<^verbatim>\<open>toLocaleLowerCase\<close> that both strings are sent
  through.
\<close>

definition verifyCaptcha ::
  "(string \<Rightarrow> string) \<Rightarrow> int \<Rightarrow> string \<Rightarrow> SessionInfo option \<Rightarrow> 'e exception + unit" where
  "verifyCaptcha toLocaleLowerCase now captcha' session =
     (case Option.bind session captcha of
        None \<Rightarrow> Inl (UnauthorizedException None UNAUTHORIZED_NOTFOUND_SESSION)
      | Some stored \<Rightarrow>
          if stored = [] then Inl (UnauthorizedException None UNAUTHORIZED_NOTFOUND_SESSION)
          else
            (case Option.bind session expirationTimestamp of
               None \<Rightarrow> Inl (UnauthorizedException None UNAUTHORIZED_CAPTCHA_EXPIRE)
             | Some t \<Rightarrow>
                 if t = 0 \<or> now > t
                 then Inl (UnauthorizedException None UNAUTHORIZED_CAPTCHA_EXPIRE)
                 else if toLocaleLowerCase captcha' = toLocaleLowerCase stored then Inr ()
                 else Inl (UnauthorizedException None UNAUTHORIZED_CAPTCHA_ERROR)))"

subsection \<open>Reading a decimal back\<close>

text \<open>The value of a digit string, used to show that \<open>decimal\<close> loses nothing.\<close>

definition digit_value :: "char \<Rightarrow> nat" where
  "digit_value c =
     (case map_of (zip ''0123456789'' [0, 1, 2, 3, 4, 5, 6, 7, 8, 9]) c of
        Some d \<Rightarrow> d
      | None \<Rightarrow> 0)"

definition decimal_value :: "string \<Rightarrow> nat" where
  "decimal_value s = foldl (\<lambda>acc c. 10 * acc + digit_value c) 0 s"

subsection \<open>The collaborators behind the service\<close>

text \<open>The errors of the two libraries that the models below can raise.\<close>

datatype lib_error = JsonWebTokenError | TokenExpiredError | RedisError

text \<open>
  A signed token, symbolically: the secret it was signed with and the claims it
  carries. Signatures are taken as perfect: a token verifies under a secret exactly
  when it was signed with that secret.
\<close>

datatype jwt = Jwt (signing_secret: string) (claims: JwtPayload)

text \<open>
  Modelled from the spec: the JwtService (\<^verbatim>\<open>@nestjs/jwt\<close>) and its registration in the
  AuthModule are not among the sources. Section 4.1: an access token is "signed with a
  configured access-token secret, default expiry from configuration", so a call without
  options signs with \<open>JWT_ACCESS_TOKEN_SECRET\<close> and \<open>JWT_ACCESS_TOKEN_EXPIRES_IN\<close>
  (seconds); options given at the call take precedence. The claims \<open>iat\<close> and
  \<open>exp\<close> are in whole seconds.
\<close>

definition jwt_signAsync :: "ConfigService \<Rightarrow> JwtPayload \<Rightarrow> JwtOptions \<Rightarrow> int \<Rightarrow> lib_error + jwt" where
  "jwt_signAsync cfg payload opts now =
     (let key = (case secret opts of Some s \<Rightarrow> s | None \<Rightarrow> JWT_ACCESS_TOKEN_SECRET cfg);
          ttl = (case expiresIn opts of Some d \<Rightarrow> d | None \<Rightarrow> JWT_ACCESS_TOKEN_EXPIRES_IN cfg);
          issued = now div 1000
      in Inr (Jwt key (payload\<lparr>iat := Some issued, exp := Some (issued + ttl)\<rparr>)))"

text \<open>
  Modelled from the spec: verification "fails if the signature is invalid or the token
  is expired" (section 4.1), with no grace window (section 8, property 5): a token is
  expired once the clock, in whole seconds, has reached its \<open>exp\<close>.
\<close>

definition jwt_verifyAsync :: "ConfigService \<Rightarrow> jwt \<Rightarrow> JwtOptions \<Rightarrow> int \<Rightarrow> lib_error + JwtPayload" where
  "jwt_verifyAsync cfg token opts now =
     (let key = (case secret opts of Some s \<Rightarrow> s | None \<Rightarrow> JWT_ACCESS_TOKEN_SECRET cfg)
      in if signing_secret token = key
         then (case exp (claims token) of
                 None \<Rightarrow> Inr (claims token)
               | Some e \<Rightarrow> if e \<le> now div 1000 then Inl TokenExpiredError else Inr (claims token))
         else Inl JsonWebTokenError)"

definition jwt_model :: "ConfigService \<Rightarrow> (jwt, lib_error) JwtService" where
  "jwt_model cfg = \<lparr>signAsync = jwt_signAsync cfg, verifyAsync = jwt_verifyAsync cfg\<rparr>"

text \<open>
  Modelled from the spec: the RedisService (\<^verbatim>\<open>@/shared/redis/redis.service\<close>) is not
  among the sources. Section 6 gives its contract: \<^verbatim>\<open>setCache(key, value, ttlSeconds)\<close>,
  \<^verbatim>\<open>getCache(key) -> value|absent\<close>, \<^verbatim>\<open>getTTL(key) -> seconds|absent\<close>,
  \<^verbatim>\<open>clearCache(key) -> deletedCount|ack\<close>; section 4.2: a write "overwrites any prior
  value for that key", the absent marker of the TTL is \<open>-1\<close>. The cache maps a key to
  its value and its time to live; no time passes between two operations.
\<close>

type_synonym 't cache = "string \<Rightarrow> ('t \<times> int) option"

definition cache_setCache :: "string \<Rightarrow> 't \<Rightarrow> int \<Rightarrow> 't cache \<Rightarrow> lib_error + 't cache" where
  "cache_setCache key v ttl m = Inr (m(key \<mapsto> (v, ttl)))"

definition cache_getCache :: "string \<Rightarrow> 't cache \<Rightarrow> lib_error + 't option" where
  "cache_getCache key m = Inr (map_option fst (m key))"

definition cache_getTTL :: "string \<Rightarrow> 't cache \<Rightarrow> lib_error + int" where
  "cache_getTTL key m = Inr (case m key of None \<Rightarrow> - 1 | Some (v, ttl) \<Rightarrow> ttl)"

definition cache_clearCatch :: "string \<Rightarrow> 't cache \<Rightarrow> lib_error + int \<times> 't cache" where
  "cache_clearCatch key m = Inr (if m key = None then 0 else 1, m(key := None))"

definition redis_model :: "('t, lib_error, 't cache) RedisService" where
  "redis_model =
     \<lparr>setCache = cache_setCache, getCache = cache_getCache,
      getTTL = cache_getTTL, clearCatch = cache_clearCatch\<rparr>"

text \<open>The service wired to the two models.\<close>

definition auth_service :: "ConfigService \<Rightarrow> (jwt, lib_error, jwt cache) AuthService" where
  "auth_service cfg = \<lparr>jwtService = jwt_model cfg, configService = cfg, redis = redis_model\<rparr>"

text \<open>
  A RedisService whose store cannot be reached: every call rejects. The cache state
  is never touched, so it is the unit.
\<close>

definition unreachable_redis :: "('t, lib_error, unit) RedisService" where
  "unreachable_redis =
     \<lparr>setCache = (\<lambda>key v ttl st. Inl RedisError), getCache = (\<lambda>key st. Inl RedisError),
      getTTL = (\<lambda>key st. Inl RedisError), clearCatch = (\<lambda>key st. Inl RedisError)\<rparr>"

text \<open>A configuration and two services used in the examples.\<close>

definition example_config :: ConfigService where
  "example_config =
     \<lparr>JWT_ACCESS_TOKEN_SECRET = ''access-secret'', JWT_REFRESH_TOKEN_SECRET = ''refresh-secret'',
      JWT_ACCESS_TOKEN_EXPIRES_IN = 3600, JWT_REFRESH_TOKEN_EXPIRES_IN = 86400\<rparr>"

definition example_service :: "(jwt, lib_error, jwt cache) AuthService" where
  "example_service = auth_service example_config"

definition offline_service :: "(jwt, lib_error, unit) AuthService" where
  "offline_service =
     \<lparr>jwtService = jwt_model example_config, configService = example_config,
      redis = unreachable_redis\<rparr>"

definition empty_cache :: "'t cache" where
  "empty_cache = (\<lambda>key. None)"

definition example_payload :: JwtPayload where
  "example_payload = \<lparr>sub = 7, userName = Some ''peng'', iat = Some 5, exp = Some 3605\<rparr>"

section \<open>Properties\<close>

subsection \<open>Decimal digits\<close>

lemma digit_cases: "(d::nat) < 10 \<Longrightarrow> d \<in> {0, 1, 2, 3, 4, 5, 6, 7, 8, 9}"
  by auto

lemma digit_char_not_hyphen: "d < 10 \<Longrightarrow> digit_char d \<noteq> CHR ''-''"
  using digit_cases [of d] by (auto simp: digit_char_def)

lemma digit_value_digit_char: "d < 10 \<Longrightarrow> digit_value (digit_char d) = d"
  using digit_cases [of d] by (auto simp: digit_char_def digit_value_def)

lemma hyphen_notin_decimal: "CHR ''-'' \<notin> set (decimal n)"
proof (induction n rule: decimal.induct)
  case (1 n)
  show ?case
  proof (cases "n < 10")
    case True
    then show ?thesis
      using digit_char_not_hyphen [of n] by (subst decimal.simps) auto
  next
    case False
    then show ?thesis
      using 1 digit_char_not_hyphen [of "n mod 10"] by (subst decimal.simps) auto
  qed
qed

lemma decimal_value_decimal: "decimal_value (decimal n) = n"
proof (induction n rule: decimal.induct)
  case (1 n)
  show ?case
  proof (cases "n < 10")
    case True
    then show ?thesis
      by (subst decimal.simps) (simp add: decimal_value_def digit_value_digit_char)
  next
    case False
    then have "decimal_value (decimal (n div 10)) = n div 10"
      using 1 by simp
    then show ?thesis
      using False by (subst decimal.simps) (simp add: decimal_value_def digit_value_digit_char)
  qed
qed

lemma decimal_inj: "decimal m = decimal n \<Longrightarrow> m = n"
  by (metis decimal_value_decimal)

text \<open>Two strings cut at the first occurrence of a separator agree part by part.\<close>

lemma split_at_first:
  "c \<notin> set xs \<Longrightarrow> c \<notin> set xs' \<Longrightarrow> xs @ c # ys = xs' @ c # ys' \<Longrightarrow> xs = xs' \<and> ys = ys'"
proof (induction xs arbitrary: xs')
  case Nil
  then show ?case by (cases xs') auto
next
  case (Cons x xs)
  then show ?case by (cases xs') auto
qed

subsection \<open>The cache key\<close>

lemma redisTokenKeyStr_unfold:
  "redisTokenKeyStr id' userName' = ''user_token:'' @ Number_toString id' @ ''-'' @ userName'"
  by (simp add: redisTokenKeyStr_def)

text \<open>
  C8. For every user name and every id that is a safe integer (\<open>|id| < 2^53\<close>,
  where \<^verbatim>\<open>`${id}`\<close> is the decimal numeral of the id), the key is the text
  \<open>user_token:\<close>, the id in decimal, a hyphen and the user name, and the digits read
  back as the id; being a function of the two, the key is the same at every call.
\<close>

theorem redisTokenKeyStr_format:
  assumes "\<bar>id'\<bar> < 2 ^ 53"
  shows "redisTokenKeyStr id' userName' = ''user_token:'' @ Number_toString id' @ ''-'' @ userName'
         \<and> decimal_value (Number_toString \<bar>id'\<bar>) = nat \<bar>id'\<bar>"
  by (simp add: redisTokenKeyStr_def Number_toString_def decimal_value_decimal)

theorem redisTokenKeyStr_format_witness:
  "\<bar>1203::int\<bar> < 2 ^ 53 \<and> redisTokenKeyStr 1203 ''peng'' = ''user_token:1203-peng''"
  using redisTokenKeyStr_format [of 1203 "''peng''"]
  by (simp add: Number_toString_def decimal.simps digit_char_def)

text \<open>
  C10. On non-negative ids the key determines the pair it was built from: two pairs
  have the same key exactly when the ids are equal and the user names are equal.
\<close>

theorem redisTokenKeyStr_inj:
  assumes "0 \<le> id1" and "0 \<le> id2"
  shows "(redisTokenKeyStr id1 n1 = redisTokenKeyStr id2 n2) = (id1 = id2 \<and> n1 = n2)"
proof
  assume "redisTokenKeyStr id1 n1 = redisTokenKeyStr id2 n2"
  with assms have "decimal (nat id1) @ CHR ''-'' # n1 = decimal (nat id2) @ CHR ''-'' # n2"
    by (simp add: redisTokenKeyStr_unfold Number_toString_def)
  then have "decimal (nat id1) = decimal (nat id2) \<and> n1 = n2"
    using hyphen_notin_decimal [of "nat id1"] hyphen_notin_decimal [of "nat id2"]
    by (blast dest: split_at_first)
  then show "id1 = id2 \<and> n1 = n2"
    using assms decimal_inj [of "nat id1" "nat id2"] by auto
next
  assume "id1 = id2 \<and> n1 = n2"
  then show "redisTokenKeyStr id1 n1 = redisTokenKeyStr id2 n2" by simp
qed

theorem redisTokenKeyStr_inj_witness:
  "(0::int) \<le> 12 \<and> (0::int) \<le> 1 \<and> redisTokenKeyStr 12 ''3-x'' \<noteq> redisTokenKeyStr 1 ''2-3-x''"
  using redisTokenKeyStr_inj [of 12 1 "''3-x''" "''2-3-x''"] by simp

subsection \<open>The CAPTCHA check\<close>

lemma verifyCaptcha_no_captcha:
  "Option.bind session captcha = None \<Longrightarrow>
   verifyCaptcha toLocaleLowerCase now answer session =
     Inl (UnauthorizedException None UNAUTHORIZED_NOTFOUND_SESSION)"
  by (simp add: verifyCaptcha_def)

lemma verifyCaptcha_empty:
  "Option.bind session captcha = Some [] \<Longrightarrow>
   verifyCaptcha toLocaleLowerCase now answer session =
     Inl (UnauthorizedException None UNAUTHORIZED_NOTFOUND_SESSION)"
  by (simp add: verifyCaptcha_def)

lemma verifyCaptcha_no_timestamp:
  "Option.bind session captcha = Some c \<Longrightarrow> c \<noteq> [] \<Longrightarrow>
   Option.bind session expirationTimestamp = None \<Longrightarrow>
   verifyCaptcha toLocaleLowerCase now answer session =
     Inl (UnauthorizedException None UNAUTHORIZED_CAPTCHA_EXPIRE)"
  by (simp add: verifyCaptcha_def)

lemma verifyCaptcha_late:
  "Option.bind session captcha = Some c \<Longrightarrow> c \<noteq> [] \<Longrightarrow>
   Option.bind session expirationTimestamp = Some t \<Longrightarrow> t < now \<Longrightarrow>
   verifyCaptcha toLocaleLowerCase now answer session =
     Inl (UnauthorizedException None UNAUTHORIZED_CAPTCHA_EXPIRE)"
  by (simp add: verifyCaptcha_def)

lemma verifyCaptcha_in_time:
  "Option.bind session captcha = Some c \<Longrightarrow> c \<noteq> [] \<Longrightarrow>
   Option.bind session expirationTimestamp = Some t \<Longrightarrow> 0 < now \<Longrightarrow> now \<le> t \<Longrightarrow>
   verifyCaptcha toLocaleLowerCase now answer session =
     (if toLocaleLowerCase answer = toLocaleLowerCase c then Inr ()
      else Inl (UnauthorizedException None UNAUTHORIZED_CAPTCHA_ERROR))"
  by (simp add: verifyCaptcha_def)

lemma verifyCaptcha_success_iff:
  assumes "0 < now"
  shows "(verifyCaptcha toLocaleLowerCase now answer session = Inr ()) =
         (\<exists>c t. Option.bind session captcha = Some c \<and> c \<noteq> [] \<and>
                Option.bind session expirationTimestamp = Some t \<and> now \<le> t \<and>
                toLocaleLowerCase answer = toLocaleLowerCase c)"
  using assms by (auto simp: verifyCaptcha_def split: option.splits if_splits)

text \<open>
  C2. Whatever the built-in \<^verbatim>\<open>toLocaleLowerCase\<close> computes, and with the clock after
  the epoch (\<open>0 < now\<close>, as \<^verbatim>\<open>Date.now()\<close> is), the check returns without error
  exactly when the session carries a non-empty captcha, an expirationTimestamp with
  \<open>now \<le> expirationTimestamp\<close>, and the answer equals the stored one after both
  went through \<^verbatim>\<open>toLocaleLowerCase\<close>. Otherwise: no captcha field gives
  UNAUTHORIZED_NOTFOUND_SESSION; a non-empty captcha with the timestamp missing or
  passed gives UNAUTHORIZED_CAPTCHA_EXPIRE; a non-empty captcha in time with an answer
  that differs after lower-casing gives UNAUTHORIZED_CAPTCHA_ERROR.
\<close>

theorem verifyCaptcha_outcomes:
  assumes "0 < now"
  shows
    "((verifyCaptcha toLocaleLowerCase now answer session :: 'e exception + unit) = Inr ()) =
       (\<exists>c t. Option.bind session captcha = Some c \<and> c \<noteq> [] \<and>
              Option.bind session expirationTimestamp = Some t \<and> now \<le> t \<and>
              toLocaleLowerCase answer = toLocaleLowerCase c)
     \<and> (Option.bind session captcha = None \<longrightarrow>
          (verifyCaptcha toLocaleLowerCase now answer session :: 'e exception + unit) =
            Inl (UnauthorizedException None UNAUTHORIZED_NOTFOUND_SESSION))
     \<and> (\<forall>c. Option.bind session captcha = Some c \<and> c \<noteq> [] \<and>
            (Option.bind session expirationTimestamp = None \<or>
             (\<exists>t. Option.bind session expirationTimestamp = Some t \<and> t < now)) \<longrightarrow>
          (verifyCaptcha toLocaleLowerCase now answer session :: 'e exception + unit) =
            Inl (UnauthorizedException None UNAUTHORIZED_CAPTCHA_EXPIRE))
     \<and> (\<forall>c t. Option.bind session captcha = Some c \<and> c \<noteq> [] \<and>
            Option.bind session expirationTimestamp = Some t \<and> now \<le> t \<and>
            toLocaleLowerCase answer \<noteq> toLocaleLowerCase c \<longrightarrow>
          (verifyCaptcha toLocaleLowerCase now answer session :: 'e exception + unit) =
            Inl (UnauthorizedException None UNAUTHORIZED_CAPTCHA_ERROR))"
proof (intro conjI allI impI)
  show "((verifyCaptcha toLocaleLowerCase now answer session :: 'e exception + unit) = Inr ()) =
       (\<exists>c t. Option.bind session captcha = Some c \<and> c \<noteq> [] \<and>
              Option.bind session expirationTimestamp = Some t \<and> now \<le> t \<and>
              toLocaleLowerCase answer = toLocaleLowerCase c)"
    using assms by (rule verifyCaptcha_success_iff)
next
  assume "Option.bind session captcha = None"
  then show "(verifyCaptcha toLocaleLowerCase now answer session :: 'e exception + unit) =
      Inl (UnauthorizedException None UNAUTHORIZED_NOTFOUND_SESSION)"
    by (rule verifyCaptcha_no_captcha)
next
  fix c
  assume "Option.bind session captcha = Some c \<and> c \<noteq> [] \<and>
            (Option.bind session expirationTimestamp = None \<or>
             (\<exists>t. Option.bind session expirationTimestamp = Some t \<and> t < now))"
  then show "(verifyCaptcha toLocaleLowerCase now answer session :: 'e exception + unit) =
      Inl (UnauthorizedException None UNAUTHORIZED_CAPTCHA_EXPIRE)"
    using verifyCaptcha_no_timestamp [where session = session and c = c]
      verifyCaptcha_late [where session = session and c = c and now = now] by blast
next
  fix c t
  assume "Option.bind session captcha = Some c \<and> c \<noteq> [] \<and>
            Option.bind session expirationTimestamp = Some t \<and> now \<le> t \<and>
            toLocaleLowerCase answer \<noteq> toLocaleLowerCase c"
  then show "(verifyCaptcha toLocaleLowerCase now answer session :: 'e exception + unit) =
      Inl (UnauthorizedException None UNAUTHORIZED_CAPTCHA_ERROR)"
    using assms
      verifyCaptcha_in_time [where session = session and c = c and t = t and now = now
        and toLocaleLowerCase = toLocaleLowerCase and answer = answer]
    by simp
qed

theorem verifyCaptcha_outcomes_witness:
  "(0::int) < 1000
   \<and> (verifyCaptcha toLocaleLowerCase_ascii 1000 ''AB3D''
        (Some \<lparr>captcha = Some ''aB3d'', expirationTimestamp = Some 61000\<rparr>)
        :: lib_error exception + unit) = Inr ()
   \<and> (verifyCaptcha toLocaleLowerCase_ascii 1000 ''AB3E''
        (Some \<lparr>captcha = Some ''aB3d'', expirationTimestamp = Some 61000\<rparr>)
        :: lib_error exception + unit) = Inl (UnauthorizedException None UNAUTHORIZED_CAPTCHA_ERROR)
   \<and> (verifyCaptcha toLocaleLowerCase_ascii 1000 ''AB3D''
        (Some \<lparr>captcha = Some ''aB3d'', expirationTimestamp = Some 999\<rparr>)
        :: lib_error exception + unit) = Inl (UnauthorizedException None UNAUTHORIZED_CAPTCHA_EXPIRE)
   \<and> (verifyCaptcha toLocaleLowerCase_ascii 1000 ''AB3D''
        (Some \<lparr>captcha = None, expirationTimestamp = Some 61000\<rparr>)
        :: lib_error exception + unit) = Inl (UnauthorizedException None UNAUTHORIZED_NOTFOUND_SESSION)"
  using
    verifyCaptcha_outcomes [where 'e = lib_error and now = 1000
      and toLocaleLowerCase = toLocaleLowerCase_ascii and answer = "''AB3D''"
      and session = "Some \<lparr>captcha = Some ''aB3d'', expirationTimestamp = Some 61000\<rparr>"]
    verifyCaptcha_outcomes [where 'e = lib_error and now = 1000
      and toLocaleLowerCase = toLocaleLowerCase_ascii and answer = "''AB3E''"
      and session = "Some \<lparr>captcha = Some ''aB3d'', expirationTimestamp = Some 61000\<rparr>"]
    verifyCaptcha_outcomes [where 'e = lib_error and now = 1000
      and toLocaleLowerCase = toLocaleLowerCase_ascii and answer = "''AB3D''"
      and session = "Some \<lparr>captcha = Some ''aB3d'', expirationTimestamp = Some 999\<rparr>"]
    verifyCaptcha_outcomes [where 'e = lib_error and now = 1000
      and toLocaleLowerCase = toLocaleLowerCase_ascii and answer = "''AB3D''"
      and session = "Some \<lparr>captcha = None, expirationTimestamp = Some 61000\<rparr>"]
  by (simp add: toLocaleLowerCase_ascii_def lower_char_def)

text \<open>
  C9. A session whose captcha field is the empty string is answered like a session
  without the field, UNAUTHORIZED_NOTFOUND_SESSION, whatever the answer, the
  expirationTimestamp, the clock and the lower-casing.
\<close>

theorem verifyCaptcha_empty_captcha:
  "(verifyCaptcha toLocaleLowerCase now answer (Some (s\<lparr>captcha := Some ''''\<rparr>))
      :: 'e exception + unit) =
     Inl (UnauthorizedException None UNAUTHORIZED_NOTFOUND_SESSION)"
  by (simp add: verifyCaptcha_empty)

theorem verifyCaptcha_empty_captcha_witness:
  "(verifyCaptcha toLocaleLowerCase_ascii 1000 ''''
      (Some \<lparr>captcha = Some '''', expirationTimestamp = Some 61000\<rparr>)
      :: lib_error exception + unit) =
     Inl (UnauthorizedException None UNAUTHORIZED_NOTFOUND_SESSION)"
  using verifyCaptcha_empty_captcha [where 'e = lib_error
      and toLocaleLowerCase = toLocaleLowerCase_ascii and now = 1000 and answer = "''''"
      and s = "\<lparr>captcha = Some ''x'', expirationTimestamp = Some 61000\<rparr>"]
  by simp

subsection \<open>Refreshing and clearing the cached token\<close>

lemma generateAccessToken_cases:
  "generateAccessToken this now id' userName' = Inl x \<Longrightarrow> \<exists>e. x = Thrown e"
  by (auto simp: generateAccessToken_def split: sum.splits)

lemma setTokenToRedis_Inr:
  "(setTokenToRedis this key token st = Inr st') =
   (setCache (redis this) key token (JWT_ACCESS_TOKEN_EXPIRES_IN (configService this)) st = Inr st')"
  by (auto simp: setTokenToRedis_def split: sum.splits)

lemma setTokenToRedis_Inl:
  "setCache (redis this) key token (JWT_ACCESS_TOKEN_EXPIRES_IN (configService this)) st = Inl e \<Longrightarrow>
   setTokenToRedis this key token st = Inl (Thrown e)"
  by (simp add: setTokenToRedis_def)

lemma refreshAccessToken_Inr:
  "refreshAccessToken this now id' userName' st = Inr (token, st') \<Longrightarrow>
   generateAccessToken this now id' userName' = Inr token \<and>
   setTokenToRedis this (redisTokenKeyStr id' userName') token st = Inr st'"
  by (auto simp: refreshAccessToken_def split: sum.splits)

text \<open>
  C4. \<^verbatim>\<open>refreshAccessToken\<close> returns a token and a cache state exactly when
  \<^verbatim>\<open>generateAccessToken\<close> has just issued that token and \<^verbatim>\<open>setCache\<close> with that
  token under \<^verbatim>\<open>redisTokenKeyStr(id, userName)\<close> has produced that state. When the
  write to the cache rejects with an error, the call rejects with an
  InternalServerErrorException of code INTERNALSERVERERROR_REDIS that carries that
  error.
\<close>

theorem refreshAccessToken_outcomes:
  "(\<forall>token st'.
      (refreshAccessToken this now id' userName' st = Inr (token, st')) =
      (generateAccessToken this now id' userName' = Inr token \<and>
       setCache (redis this) (redisTokenKeyStr id' userName') token
         (JWT_ACCESS_TOKEN_EXPIRES_IN (configService this)) st = Inr st'))
   \<and> (\<forall>token e. generateAccessToken this now id' userName' = Inr token \<and>
      setCache (redis this) (redisTokenKeyStr id' userName') token
        (JWT_ACCESS_TOKEN_EXPIRES_IN (configService this)) st = Inl e \<longrightarrow>
      refreshAccessToken this now id' userName' st =
        Inl (InternalServerErrorException INTERNALSERVERERROR_REDIS (Thrown e)))"
proof (intro conjI allI impI)
  fix token st'
  show "(refreshAccessToken this now id' userName' st = Inr (token, st')) =
      (generateAccessToken this now id' userName' = Inr token \<and>
       setCache (redis this) (redisTokenKeyStr id' userName') token
         (JWT_ACCESS_TOKEN_EXPIRES_IN (configService this)) st = Inr st')"
  proof
    assume "refreshAccessToken this now id' userName' st = Inr (token, st')"
    then have "generateAccessToken this now id' userName' = Inr token \<and>
        setTokenToRedis this (redisTokenKeyStr id' userName') token st = Inr st'"
      by (rule refreshAccessToken_Inr)
    then show "generateAccessToken this now id' userName' = Inr token \<and>
       setCache (redis this) (redisTokenKeyStr id' userName') token
         (JWT_ACCESS_TOKEN_EXPIRES_IN (configService this)) st = Inr st'"
      by (simp add: setTokenToRedis_Inr)
  next
    assume "generateAccessToken this now id' userName' = Inr token \<and>
       setCache (redis this) (redisTokenKeyStr id' userName') token
         (JWT_ACCESS_TOKEN_EXPIRES_IN (configService this)) st = Inr st'"
    then show "refreshAccessToken this now id' userName' st = Inr (token, st')"
      by (simp add: refreshAccessToken_def setTokenToRedis_def)
  qed
next
  fix token e
  assume "generateAccessToken this now id' userName' = Inr token \<and>
      setCache (redis this) (redisTokenKeyStr id' userName') token
        (JWT_ACCESS_TOKEN_EXPIRES_IN (configService this)) st = Inl e"
  then show "refreshAccessToken this now id' userName' st =
        Inl (InternalServerErrorException INTERNALSERVERERROR_REDIS (Thrown e))"
    by (simp add: refreshAccessToken_def setTokenToRedis_Inl)
qed

lemma example_token:
  "generateAccessToken example_service 5000 7 ''peng'' =
     Inr (Jwt ''access-secret'' \<lparr>sub = 7, userName = Some ''peng'', iat = Some 5, exp = Some 3605\<rparr>)"
  by (simp add: generateAccessToken_def example_service_def auth_service_def jwt_model_def
      jwt_signAsync_def example_config_def)

lemma offline_token:
  "generateAccessToken offline_service 5000 7 ''peng'' =
     Inr (Jwt ''access-secret'' \<lparr>sub = 7, userName = Some ''peng'', iat = Some 5, exp = Some 3605\<rparr>)"
  by (simp add: generateAccessToken_def offline_service_def jwt_model_def
      jwt_signAsync_def example_config_def)

lemma offline_setCache:
  "setCache (redis offline_service) key token ttl st = Inl RedisError"
  by (simp add: offline_service_def unreachable_redis_def)

lemma offline_clearCatch:
  "clearCatch (redis offline_service) key st = Inl RedisError"
  by (simp add: offline_service_def unreachable_redis_def)

lemma example_key: "redisTokenKeyStr 7 ''peng'' = ''user_token:7-peng''"
  by (simp add: redisTokenKeyStr_unfold Number_toString_def decimal.simps digit_char_def)

lemma example_setCache:
  "setCache (redis example_service) key token
     (JWT_ACCESS_TOKEN_EXPIRES_IN (configService example_service)) st =
   Inr (st(key \<mapsto> (token, 3600)))"
  by (simp add: example_service_def auth_service_def redis_model_def cache_setCache_def
      example_config_def)

theorem refreshAccessToken_outcomes_witness:
  "refreshAccessToken offline_service 5000 7 ''peng'' () =
     Inl (InternalServerErrorException INTERNALSERVERERROR_REDIS (Thrown RedisError))
   \<and> refreshAccessToken example_service 5000 7 ''peng'' empty_cache =
       Inr (Jwt ''access-secret'' example_payload,
            empty_cache(''user_token:7-peng'' \<mapsto> (Jwt ''access-secret'' example_payload, 3600)))"
  using refreshAccessToken_outcomes [of offline_service 5000 7 "''peng''" "()"]
    refreshAccessToken_outcomes [of example_service 5000 7 "''peng''" empty_cache]
    offline_token offline_setCache example_token example_setCache example_key
  by (simp add: example_payload_def)

text \<open>
  C3, as the code has it. \<^verbatim>\<open>clearUserToken\<close> deletes the entry under
  \<^verbatim>\<open>redisTokenKeyStr(id, userName)\<close>: when the delete returns, the call returns with
  the new cache state and has logged the value returned; when the delete rejects, the
  call rejects with the same error (the await stands outside any \<^verbatim>\<open>try\<close>).
\<close>

theorem clearUserToken_outcomes:
  "(\<forall>val st'. clearCatch (redis this) (redisTokenKeyStr (dto_id data) (dto_userName data)) st
        = Inr (val, st') \<longrightarrow>
      clearUserToken this data st = Inr (st', [(''val ------'', val)]))
   \<and> (\<forall>e. clearCatch (redis this) (redisTokenKeyStr (dto_id data) (dto_userName data)) st
        = Inl e \<longrightarrow>
      clearUserToken this data st = Inl (Thrown e))"
  by (simp add: clearUserToken_def)

theorem clearUserToken_outcomes_witness:
  "clearUserToken example_service \<lparr>dto_id = 7, dto_userName = ''peng''\<rparr> empty_cache =
     Inr (empty_cache, [(''val ------'', 0)])
   \<and> clearUserToken offline_service \<lparr>dto_id = 8, dto_userName = ''guest''\<rparr> () =
     Inl (Thrown RedisError)"
  using clearUserToken_outcomes [of example_service "\<lparr>dto_id = 7, dto_userName = ''peng''\<rparr>" empty_cache]
    clearUserToken_outcomes [of offline_service "\<lparr>dto_id = 8, dto_userName = ''guest''\<rparr>" "()"]
    offline_clearCatch
  by (simp add: example_service_def auth_service_def redis_model_def cache_clearCatch_def
      empty_cache_def)

text \<open>
  C3, as the spec has it, fails: with a store that cannot be reached the caller of
  \<^verbatim>\<open>clearUserToken\<close> gets the error of the delete.
\<close>

theorem clearUserToken_rejects:
  "clearUserToken offline_service \<lparr>dto_id = 7, dto_userName = ''peng''\<rparr> () =
     Inl (Thrown RedisError)"
  by (simp add: clearUserToken_def offline_clearCatch)

subsection \<open>The registry over the modelled cache\<close>

lemma cache_store:
  "setTokenToRedis (this\<lparr>redis := redis_model\<rparr>) key token st =
     Inr (st(key \<mapsto> (token, JWT_ACCESS_TOKEN_EXPIRES_IN (configService this))))"
  by (simp add: setTokenToRedis_def redis_model_def cache_setCache_def)

lemma cache_fetch:
  "getRedisToken (this\<lparr>redis := redis_model\<rparr>) id' userName' st =
     Inr (map_option fst (st (redisTokenKeyStr id' userName')))"
  by (simp add: getRedisToken_def redis_model_def cache_getCache_def)

lemma cache_ttl:
  "getTokenTTL (this\<lparr>redis := redis_model\<rparr>) key st =
     Inr (case st key of None \<Rightarrow> - 1 | Some (v, ttl) \<Rightarrow> ttl)"
  by (simp add: getTokenTTL_def redis_model_def cache_getTTL_def)

lemma cache_clear:
  "clearUserToken (this\<lparr>redis := redis_model\<rparr>) data st =
     Inr (st((redisTokenKeyStr (dto_id data) (dto_userName data)) := None),
          [(''val ------'',
            if st (redisTokenKeyStr (dto_id data) (dto_userName data)) = None then 0 else 1)])"
  by (simp add: clearUserToken_def redis_model_def cache_clearCatch_def Let_def)

lemma auth_service_redis: "(auth_service cfg)\<lparr>redis := redis_model\<rparr> = auth_service cfg"
  by (simp add: auth_service_def)

text \<open>
  C7. Over the modelled cache, for every service, (id, userName) and tokens: storing
  a token under \<^verbatim>\<open>redisTokenKeyStr(id, userName)\<close> succeeds, a fetch for the pair
  right after it returns that token, and the time to live of the entry is
  \<open>JWT_ACCESS_TOKEN_EXPIRES_IN\<close>; a second store under the same key succeeds and the
  fetch after it returns the second token.
\<close>

theorem store_fetch_roundtrip:
  "\<exists>st1 st2.
     setTokenToRedis (this\<lparr>redis := redis_model\<rparr>) (redisTokenKeyStr id' userName') token1 st = Inr st1
     \<and> getRedisToken (this\<lparr>redis := redis_model\<rparr>) id' userName' st1 = Inr (Some token1)
     \<and> getTokenTTL (this\<lparr>redis := redis_model\<rparr>) (redisTokenKeyStr id' userName') st1 =
         Inr (JWT_ACCESS_TOKEN_EXPIRES_IN (configService this))
     \<and> setTokenToRedis (this\<lparr>redis := redis_model\<rparr>) (redisTokenKeyStr id' userName') token2 st1 = Inr st2
     \<and> getRedisToken (this\<lparr>redis := redis_model\<rparr>) id' userName' st2 = Inr (Some token2)"
  by (simp add: cache_store cache_fetch cache_ttl)

theorem store_fetch_roundtrip_witness:
  "\<exists>st1 st2.
     setTokenToRedis example_service (redisTokenKeyStr 7 ''peng'') (Jwt ''a'' example_payload) empty_cache = Inr st1
     \<and> getRedisToken example_service 7 ''peng'' st1 = Inr (Some (Jwt ''a'' example_payload))
     \<and> getTokenTTL example_service (redisTokenKeyStr 7 ''peng'') st1 = Inr 3600
     \<and> setTokenToRedis example_service (redisTokenKeyStr 7 ''peng'') (Jwt ''b'' example_payload) st1 = Inr st2
     \<and> getRedisToken example_service 7 ''peng'' st2 = Inr (Some (Jwt ''b'' example_payload))"
  using store_fetch_roundtrip [of example_service 7 "''peng''" "Jwt ''a'' example_payload" empty_cache "Jwt ''b'' example_payload"]
  by (simp add: example_service_def auth_service_redis auth_service_def example_config_def)

subsection \<open>Tokens over the modelled JwtService\<close>

lemma issue_access:
  "generateAccessToken (auth_service cfg) t0 id' userName' =
     Inr (Jwt (JWT_ACCESS_TOKEN_SECRET cfg)
           \<lparr>sub = id', userName = Some userName', iat = Some (t0 div 1000),
            exp = Some (t0 div 1000 + JWT_ACCESS_TOKEN_EXPIRES_IN cfg)\<rparr>)"
  by (simp add: generateAccessToken_def auth_service_def jwt_model_def jwt_signAsync_def Let_def)

lemma issue_refresh:
  "generateRefreshToken (auth_service cfg) t0 id' =
     Inr (Jwt (JWT_REFRESH_TOKEN_SECRET cfg)
           \<lparr>sub = id', userName = None, iat = Some (t0 div 1000),
            exp = Some (t0 div 1000 + JWT_REFRESH_TOKEN_EXPIRES_IN cfg)\<rparr>)"
  by (simp add: generateRefreshToken_def auth_service_def jwt_model_def jwt_signAsync_def Let_def)

lemma verify_access:
  "verifyAccessToken (auth_service cfg) now token =
     (if signing_secret token = JWT_ACCESS_TOKEN_SECRET cfg
      then (case exp (claims token) of
              None \<Rightarrow> Inr (claims token)
            | Some e \<Rightarrow>
                if e \<le> now div 1000
                then Inl (UnauthorizedException (Some (Thrown TokenExpiredError)) UNAUTHORIZED_ACCESS_TOKEN)
                else Inr (claims token))
      else Inl (UnauthorizedException (Some (Thrown JsonWebTokenError)) UNAUTHORIZED_ACCESS_TOKEN))"
  by (simp add: verifyAccessToken_def auth_service_def jwt_model_def jwt_verifyAsync_def
      split: option.splits)

lemma verify_refresh:
  "verifyRefresToken (auth_service cfg) now token =
     (if signing_secret token = JWT_REFRESH_TOKEN_SECRET cfg
      then (case exp (claims token) of
              None \<Rightarrow> Inr (claims token)
            | Some e \<Rightarrow>
                if e \<le> now div 1000
                then Inl (UnauthorizedException (Some (Thrown TokenExpiredError)) UNAUTHORIZED_REFRESH_TOKEN)
                else Inr (claims token))
      else Inl (UnauthorizedException (Some (Thrown JsonWebTokenError)) UNAUTHORIZED_REFRESH_TOKEN))"
  by (simp add: verifyRefresToken_def auth_service_def jwt_model_def jwt_verifyAsync_def
      split: option.splits)

text \<open>
  C1. Over the modelled JwtService, for every id and userName:
  \<^verbatim>\<open>generateAccessToken\<close> returns a token signed with \<open>JWT_ACCESS_TOKEN_SECRET\<close> whose
  claims have \<open>sub = id\<close> and the userName, and \<^verbatim>\<open>verifyAccessToken\<close> on that token,
  at a time before its expiry, returns a payload with \<open>sub = id\<close> and the same
  userName.
\<close>

theorem access_token_roundtrip:
  assumes "now div 1000 < t0 div 1000 + JWT_ACCESS_TOKEN_EXPIRES_IN cfg"
  shows "\<exists>token payload.
           generateAccessToken (auth_service cfg) t0 id' userName' = Inr token
           \<and> signing_secret token = JWT_ACCESS_TOKEN_SECRET cfg
           \<and> sub (claims token) = id' \<and> userName (claims token) = Some userName'
           \<and> verifyAccessToken (auth_service cfg) now token = Inr payload
           \<and> sub payload = id' \<and> userName payload = Some userName'"
  using assms by (simp add: issue_access verify_access)

theorem access_token_roundtrip_witness:
  "(9000::int) div 1000 < 5000 div 1000 + JWT_ACCESS_TOKEN_EXPIRES_IN example_config
   \<and> (\<exists>token payload.
           generateAccessToken example_service 5000 7 ''peng'' = Inr token
           \<and> signing_secret token = ''access-secret''
           \<and> sub (claims token) = 7 \<and> userName (claims token) = Some ''peng''
           \<and> verifyAccessToken example_service 9000 token = Inr payload
           \<and> sub payload = 7 \<and> userName payload = Some ''peng'')"
  using access_token_roundtrip [of 9000 5000 example_config 7 "''peng''"]
  by (simp add: example_service_def example_config_def)

text \<open>
  C5. Over the modelled JwtService, with two different configured secrets: every
  token that \<^verbatim>\<open>generateRefreshToken\<close> returns is rejected by \<^verbatim>\<open>verifyAccessToken\<close>
  with UNAUTHORIZED_ACCESS_TOKEN, and every token that \<^verbatim>\<open>generateAccessToken\<close>
  returns is rejected by \<^verbatim>\<open>verifyRefresToken\<close> with UNAUTHORIZED_REFRESH_TOKEN, at any
  time.
\<close>

theorem cross_kind_rejection:
  assumes "JWT_ACCESS_TOKEN_SECRET cfg \<noteq> JWT_REFRESH_TOKEN_SECRET cfg"
  shows "\<exists>refresh access.
           generateRefreshToken (auth_service cfg) t0 id' = Inr refresh
           \<and> verifyAccessToken (auth_service cfg) now refresh =
               Inl (UnauthorizedException (Some (Thrown JsonWebTokenError)) UNAUTHORIZED_ACCESS_TOKEN)
           \<and> generateAccessToken (auth_service cfg) t1 id' userName' = Inr access
           \<and> verifyRefresToken (auth_service cfg) now access =
               Inl (UnauthorizedException (Some (Thrown JsonWebTokenError)) UNAUTHORIZED_REFRESH_TOKEN)"
  using assms by (simp add: issue_access issue_refresh verify_access verify_refresh)

theorem cross_kind_rejection_witness:
  "JWT_ACCESS_TOKEN_SECRET example_config \<noteq> JWT_REFRESH_TOKEN_SECRET example_config
   \<and> (\<exists>refresh access.
           generateRefreshToken example_service 5000 7 = Inr refresh
           \<and> verifyAccessToken example_service 9000 refresh =
               Inl (UnauthorizedException (Some (Thrown JsonWebTokenError)) UNAUTHORIZED_ACCESS_TOKEN)
           \<and> generateAccessToken example_service 6000 7 ''peng'' = Inr access
           \<and> verifyRefresToken example_service 9000 access =
               Inl (UnauthorizedException (Some (Thrown JsonWebTokenError)) UNAUTHORIZED_REFRESH_TOKEN))"
  using cross_kind_rejection [of example_config 5000 7 9000 6000 "''peng''"]
  by (simp add: example_service_def example_config_def)

text \<open>
  C6. Over the two models: after \<^verbatim>\<open>clearUserToken\<close> for (id, userName) a fetch for
  the pair returns nothing, whatever the cache held; and an access token issued
  before, for any user, still verifies at any time before its expiry.
\<close>

theorem revoke_keeps_token_valid:
  assumes "now div 1000 < t0 div 1000 + JWT_ACCESS_TOKEN_EXPIRES_IN cfg"
  shows "\<exists>token st' out payload.
           generateAccessToken (auth_service cfg) t0 id2 userName2 = Inr token
           \<and> clearUserToken (auth_service cfg) \<lparr>dto_id = id', dto_userName = userName'\<rparr> st
               = Inr (st', out)
           \<and> getRedisToken (auth_service cfg) id' userName' st' = Inr None
           \<and> verifyAccessToken (auth_service cfg) now token = Inr payload
           \<and> sub payload = id2 \<and> userName payload = Some userName2"
  using assms
    cache_clear [of "auth_service cfg" "\<lparr>dto_id = id', dto_userName = userName'\<rparr>" st]
    cache_fetch [of "auth_service cfg" id' userName']
  by (simp add: auth_service_redis issue_access verify_access)

theorem revoke_keeps_token_valid_witness:
  "(9000::int) div 1000 < 5000 div 1000 + JWT_ACCESS_TOKEN_EXPIRES_IN example_config
   \<and> (\<exists>token st' out payload.
           generateAccessToken example_service 5000 7 ''peng'' = Inr token
           \<and> clearUserToken example_service \<lparr>dto_id = 7, dto_userName = ''peng''\<rparr>
                (empty_cache(''user_token:7-peng'' \<mapsto> (Jwt ''access-secret'' example_payload, 3600)))
               = Inr (st', out)
           \<and> getRedisToken example_service 7 ''peng'' st' = Inr None
           \<and> verifyAccessToken example_service 9000 token = Inr payload
           \<and> sub payload = 7 \<and> userName payload = Some ''peng'')"
  using revoke_keeps_token_valid [of 9000 5000 example_config 7 "''peng''" 7 "''peng''"
      "empty_cache(''user_token:7-peng'' \<mapsto> (Jwt ''access-secret'' example_payload, 3600))"]
  by (simp add: example_service_def example_config_def)

end
